theory Spec2Isabelle
  imports Complex_Main
begin

section \<open>Data model\<close>

text \<open>
  The order workflow and the material-ordering safety engine of the framing-shop
  application: \<^verbatim>\<open>MaterialOrderingService\<close> (duplicate detector, override gate,
  orchestrator), the storage operations it calls, and the two PATCH handlers that change an
  order's status.

  Times are milliseconds since the epoch (\<^verbatim>\<open>Date\<close> values); an invalid
  \<^verbatim>\<open>Date\<close> is \<open>None\<close>. Statuses are plain
  text, as the \<^verbatim>\<open>orders.status\<close> column is. Row ids made by
  \<^verbatim>\<open>randomUUID()\<close> and the \<^verbatim>\<open>createdAt\<close> defaults of the database are
  not part of the rows below: no modelled code reads them.
\<close>

record order =
  status :: string
  order_notes :: "string option"
  updatedAt :: int

record material =
  vendor :: string
  item :: string

text \<open>
  The \<^verbatim>\<open>orderDetails\<close> column holds a JSON text. The record lists the properties
  that the service writes (\<^verbatim>\<open>timestamp\<close>, \<^verbatim>\<open>userId\<close>,
  \<^verbatim>\<open>wasOverridden\<close>) and the ones it reads back (\<^verbatim>\<open>materials\<close>,
  \<^verbatim>\<open>vendor\<close>); \<open>None\<close> is an absent property. The column itself is empty
  (null or the empty text, both falsy), a text that \<^verbatim>\<open>JSON.parse\<close> rejects, or the
  text of a snapshot.
\<close>

record order_details =
  od_timestamp :: "int option"
  od_userId :: "string option"
  od_wasOverridden :: "bool option"
  od_materials :: "material list option"
  od_vendor :: "string option"

datatype details_column = NoDetails | Malformed | Snapshot order_details

record audit =
  orderId :: string
  orderedBy :: string
  orderedAt :: int
  wasOverridden :: bool
  orderDetails :: details_column

record status_history =
  sh_orderId :: string
  fromStatus :: "string option"
  toStatus :: string
  changedBy :: string
  reason :: "string option"

datatype risk = LOW | MEDIUM | HIGH | CRITICAL

record DuplicateOrderCheck =
  isDuplicate :: bool
  existingOrders :: "audit list"
  requiresOverride :: bool
  riskLevel :: risk

section \<open>The store and its failures\<close>

text \<open>
  The database is the three tables the code touches, with a log of the calls made to it
  and to the override gate (with the arguments of the call: the cutoff of the query, the
  order id, and for the gate the code, the user and the reason). A call that raises because
  the database is unreachable or rejects a statement is chosen by the oracle \<open>fails\<close>:
  every general property below holds for every oracle.
\<close>

datatype call =
  DbSelectRecent "int option"
  | DbGetOrder string
  | DbUpdateOrder string
  | DbInsertAudit string
  | DbInsertStatusHistory string
  | VerifyAuthorization string string string
  | SendStatusUpdate string

datatype error = DbError | JsonError | RangeError

record store =
  orders :: "string \<Rightarrow> order option"
  materialOrderHistory :: "audit list"
  statusHistory :: "status_history list"
  calls :: "call list"

type_synonym faults = "call \<Rightarrow> bool"

definition logged :: "call list \<Rightarrow> store \<Rightarrow> store" where
  "logged cs st = st\<lparr>calls := calls st @ cs\<rparr>"

text \<open>\<^verbatim>\<open>storage.getOrder(id)\<close>: the row, or \<^verbatim>\<open>undefined\<close> when there is none.\<close>

definition getOrder :: "faults \<Rightarrow> string \<Rightarrow> store \<Rightarrow> (error + order option) \<times> store" where
  "getOrder fails oid st =
     (if fails (DbGetOrder oid) then Inl DbError else Inr (orders st oid),
      logged [DbGetOrder oid] st)"

text \<open>
  \<^verbatim>\<open>storage.updateOrder(id, {status, ...})\<close>: an UPDATE with a WHERE clause on the
  id, which also sets \<^verbatim>\<open>updatedAt\<close>. With no such row nothing changes and nothing is
  raised; the returned row is \<^verbatim>\<open>undefined\<close>.
\<close>

record order_patch =
  p_status :: "string option"
  p_notes :: "string option"

definition apply_patch :: "int \<Rightarrow> order_patch \<Rightarrow> order \<Rightarrow> order" where
  "apply_patch now p ord =
     ord\<lparr>status := (case p_status p of None \<Rightarrow> status ord | Some s \<Rightarrow> s),
         order_notes := (case p_notes p of None \<Rightarrow> order_notes ord | Some n \<Rightarrow> Some n),
         updatedAt := now\<rparr>"

definition updateOrder ::
  "faults \<Rightarrow> int \<Rightarrow> string \<Rightarrow> order_patch \<Rightarrow> store \<Rightarrow> (error + order option) \<times> store" where
  "updateOrder fails now oid p st =
     (if fails (DbUpdateOrder oid) then (Inl DbError, logged [DbUpdateOrder oid] st)
      else
        (case orders st oid of
           None \<Rightarrow> (Inr None, logged [DbUpdateOrder oid] st)
         | Some ord \<Rightarrow>
             (Inr (Some (apply_patch now p ord)),
              logged [DbUpdateOrder oid] (st\<lparr>orders := (orders st)(oid \<mapsto> apply_patch now p ord)\<rparr>))))"

definition createStatusHistory ::
  "faults \<Rightarrow> status_history \<Rightarrow> store \<Rightarrow> (error + status_history) \<times> store" where
  "createStatusHistory fails h st =
     (if fails (DbInsertStatusHistory (sh_orderId h))
      then (Inl DbError, logged [DbInsertStatusHistory (sh_orderId h)] st)
      else (Inr h,
            logged [DbInsertStatusHistory (sh_orderId h)]
              (st\<lparr>statusHistory := statusHistory st @ [h]\<rparr>)))"

section \<open>Material signatures\<close>

definition is_digit :: "char \<Rightarrow> bool" where
  "is_digit c = (c \<in> set ''0123456789'')"

fun starts_with :: "string \<Rightarrow> string \<Rightarrow> bool" where
  "starts_with [] s = True"
| "starts_with (p # ps) [] = False"
| "starts_with (p # ps) (c # cs) = (p = c \<and> starts_with ps cs)"

text \<open>
  \<^verbatim>\<open>notes.match(/Frame: (R\d+)/)\<close> and its two siblings: the leftmost place where the
  literal, the vendor letter and at least one digit stand; the group is the letter and the
  longest run of digits after it.
\<close>

fun match_code :: "string \<Rightarrow> char \<Rightarrow> string \<Rightarrow> string option" where
  "match_code lit k [] = None"
| "match_code lit k (c # cs) =
     (if starts_with (lit @ [k]) (c # cs)
         \<and> takeWhile is_digit (drop (length lit + 1) (c # cs)) \<noteq> []
      then Some (k # takeWhile is_digit (drop (length lit + 1) (c # cs)))
      else match_code lit k cs)"

fun includes_str :: "string \<Rightarrow> string \<Rightarrow> bool" where
  "includes_str [] sub = (sub = [])"
| "includes_str (c # cs) sub = (starts_with sub (c # cs) \<or> includes_str cs sub)"

definition extractMaterialsFromNotes :: "string \<Rightarrow> material list" where
  "extractMaterialsFromNotes ns =
     (case match_code ''Frame: '' (CHR ''R'') ns of
        None \<Rightarrow> [] | Some i \<Rightarrow> [\<lparr>vendor = ''Roma Moulding'', item = i\<rparr>])
     @ (case match_code ''Frame: '' (CHR ''L'') ns of
        None \<Rightarrow> [] | Some i \<Rightarrow> [\<lparr>vendor = ''Larson Juhl'', item = i\<rparr>])
     @ (case match_code ''Mat: '' (CHR ''C'') ns of
        None \<Rightarrow> [] | Some i \<Rightarrow> [\<lparr>vendor = ''Crescent'', item = i\<rparr>])
     @ (if includes_str ns ''Museum Glass''
        then [\<lparr>vendor = ''Guardian Glass'', item = ''Museum Glass''\<rparr>] else [])"

text \<open>The key \<^verbatim>\<open>`${m.vendor}:${m.item}`\<close> of a material.\<close>

definition material_key :: "material \<Rightarrow> string" where
  "material_key m = vendor m @ '':'' @ item m"

text \<open>
  Sizes of the intersection and of the union of the two key sets. The quotient is a
  floating-point number in the source; the sets are far too small for a quotient above
  four fifths to round down to the literal \<^verbatim>\<open>0.8\<close>, so the rational is compared.
\<close>

definition calculateMaterialSimilarity :: "material list \<Rightarrow> material list \<Rightarrow> rat" where
  "calculateMaterialSimilarity materials1 materials2 =
     (if materials1 = [] \<and> materials2 = [] then 0
      else if materials1 = [] \<or> materials2 = [] then 0
      else
        (let set1 = remdups (map material_key materials1);
             set2 = remdups (map material_key materials2);
             intersection = filter (\<lambda>x. x \<in> set set2) set1;
             union = remdups (set1 @ set2)
         in of_nat (length intersection) / of_nat (length union)))"

section \<open>Duplicate and risk detector\<close>

definition parse_details :: "details_column \<Rightarrow> error + order_details" where
  "parse_details c =
     (case c of
        NoDetails \<Rightarrow> Inr \<lparr>od_timestamp = None, od_userId = None, od_wasOverridden = None,
                          od_materials = None, od_vendor = None\<rparr>
      | Malformed \<Rightarrow> Inl JsonError
      | Snapshot d \<Rightarrow> Inr d)"

text \<open>The inner loop of \<^verbatim>\<open>checkSimilarMaterials\<close>, over the recent records.\<close>

fun similar_to_recent :: "material list \<Rightarrow> audit list \<Rightarrow> error + bool" where
  "similar_to_recent newOrderMaterials [] = Inr False"
| "similar_to_recent newOrderMaterials (recentOrder # rest) =
     (case parse_details (orderDetails recentOrder) of
        Inl e \<Rightarrow> Inl e
      | Inr recentOrderDetails \<Rightarrow>
          (let recentMaterials =
                 (case od_materials recentOrderDetails of None \<Rightarrow> [] | Some ms \<Rightarrow> ms)
           in if calculateMaterialSimilarity newOrderMaterials recentMaterials > 8 / 10
              then Inr True
              else similar_to_recent newOrderMaterials rest))"

definition notes_or_empty :: "order \<Rightarrow> string" where
  "notes_or_empty ord = (case order_notes ord of None \<Rightarrow> [] | Some n \<Rightarrow> n)"

fun checkSimilarMaterials :: "order option list \<Rightarrow> audit list \<Rightarrow> error + bool" where
  "checkSimilarMaterials [] recentOrders = Inr False"
| "checkSimilarMaterials (None # rest) recentOrders = checkSimilarMaterials rest recentOrders"
| "checkSimilarMaterials (Some newOrder # rest) recentOrders =
     (case similar_to_recent (extractMaterialsFromNotes (notes_or_empty newOrder)) recentOrders of
        Inl e \<Rightarrow> Inl e
      | Inr True \<Rightarrow> Inr True
      | Inr False \<Rightarrow> checkSimilarMaterials rest recentOrders)"

definition MAX_DAILY_ORDERS_PER_VENDOR :: nat where
  "MAX_DAILY_ORDERS_PER_VENDOR = 5"

definition DUPLICATE_THRESHOLD_HOURS :: int where
  "DUPLICATE_THRESHOLD_HOURS = 24"

definition MANAGEMENT_OVERRIDE_CODE :: string where
  "MANAGEMENT_OVERRIDE_CODE = ''MGMT_OVERRIDE_2025_MATERIALS''"

text \<open>The tally \<^verbatim>\<open>vendorCounts\<close>: a vendor that is absent or empty counts as Unknown.\<close>

fun count_vendors :: "audit list \<Rightarrow> (string \<Rightarrow> nat) \<Rightarrow> error + (string \<Rightarrow> nat)" where
  "count_vendors [] vendorCounts = Inr vendorCounts"
| "count_vendors (r # rest) vendorCounts =
     (case parse_details (orderDetails r) of
        Inl e \<Rightarrow> Inl e
      | Inr details \<Rightarrow>
          (let v = (case od_vendor details of
                      None \<Rightarrow> ''Unknown''
                    | Some w \<Rightarrow> if w = [] then ''Unknown'' else w)
           in count_vendors rest (vendorCounts(v := vendorCounts v + 1))))"

fun over_limit :: "(string \<Rightarrow> nat) \<Rightarrow> order option list \<Rightarrow> bool" where
  "over_limit vendorCounts [] = False"
| "over_limit vendorCounts (None # rest) = over_limit vendorCounts rest"
| "over_limit vendorCounts (Some ord # rest) =
     (if list_ex (\<lambda>v. vendorCounts v \<ge> MAX_DAILY_ORDERS_PER_VENDOR)
           (filter (\<lambda>v. v \<noteq> [])
              (map vendor (extractMaterialsFromNotes (notes_or_empty ord))))
      then True
      else over_limit vendorCounts rest)"

definition checkVendorOrderLimits :: "order option list \<Rightarrow> audit list \<Rightarrow> error + bool" where
  "checkVendorOrderLimits newOrders recentOrders =
     (case count_vendors recentOrders (\<lambda>v. 0) of
        Inl e \<Rightarrow> Inl e
      | Inr vendorCounts \<Rightarrow> Inr (over_limit vendorCounts newOrders))"

text \<open>
  The cutoff of the window, line 47:
  \<^verbatim>\<open>cutoffTime.setHours(cutoffTime.getHours() - this.DUPLICATE_THRESHOLD_HOURS)\<close>.
  The constant is declared \<^verbatim>\<open>static\<close>: it is a property of the class, and the
  instance that runs the method has none of that name, so the read through
  \<^verbatim>\<open>this\<close> gives \<^verbatim>\<open>undefined\<close> (the two other constants are read
  through the class, lines 107 and 260). The hours minus \<^verbatim>\<open>undefined\<close> are NaN,
  and \<^verbatim>\<open>setHours(NaN)\<close> leaves an invalid date.
\<close>

definition this_DUPLICATE_THRESHOLD_HOURS :: "int option" where
  "this_DUPLICATE_THRESHOLD_HOURS = None"

definition cutoffTime :: "int \<Rightarrow> int option" where
  "cutoffTime now =
     (case this_DUPLICATE_THRESHOLD_HOURS of
        None \<Rightarrow> None
      | Some h \<Rightarrow> Some (now - h * 3600000))"

text \<open>
  The query for the recent window: the records with \<^verbatim>\<open>orderedAt >= cutoffTime\<close>.
  The table \<^verbatim>\<open>materialOrderHistory\<close> is not among the declarations of the schema
  file; it is taken to be declared as the tables there are, with a timestamp column whose
  parameter is written with \<^verbatim>\<open>toISOString\<close>, which raises a RangeError on an
  invalid date before the database is reached.
\<close>

definition select_recent ::
  "faults \<Rightarrow> int option \<Rightarrow> store \<Rightarrow> (error + audit list) \<times> store" where
  "select_recent fails cutoff st =
     ((case cutoff of
         None \<Rightarrow> Inl RangeError
       | Some c \<Rightarrow>
           if fails (DbSelectRecent cutoff) then Inl DbError
           else Inr (filter (\<lambda>r. orderedAt r \<ge> c) (materialOrderHistory st))),
      logged [DbSelectRecent cutoff] st)"

text \<open>
  \<^verbatim>\<open>Promise.all(orderIds.map(id => storage.getOrder(id)))\<close>: every lookup is started;
  the whole fails when one of them does.
\<close>

definition get_all_orders ::
  "faults \<Rightarrow> string list \<Rightarrow> store \<Rightarrow> (error + order option list) \<times> store" where
  "get_all_orders fails orderIds st =
     (if list_ex (\<lambda>oid. fails (DbGetOrder oid)) orderIds then Inl DbError
      else Inr (map (orders st) orderIds),
      logged (map DbGetOrder orderIds) st)"

definition classify ::
  "string list \<Rightarrow> order option list \<Rightarrow> audit list \<Rightarrow> error + (risk \<times> bool)" where
  "classify duplicateOrderIds newOrders recentOrders =
     (if duplicateOrderIds \<noteq> [] then Inr (CRITICAL, True)
      else
        (case checkSimilarMaterials newOrders recentOrders of
           Inl e \<Rightarrow> Inl e
         | Inr True \<Rightarrow> Inr (HIGH, True)
         | Inr False \<Rightarrow>
             (case checkVendorOrderLimits newOrders recentOrders of
                Inl e \<Rightarrow> Inl e
              | Inr True \<Rightarrow> Inr (MEDIUM, True)
              | Inr False \<Rightarrow> Inr (LOW, False))))"

text \<open>
  The body of the \<^verbatim>\<open>try\<close> block of \<^verbatim>\<open>checkDuplicateOrders\<close> from
  line 49 on, for a given cutoff.
\<close>

definition check_with_cutoff ::
  "faults \<Rightarrow> int option \<Rightarrow> string list \<Rightarrow> store
     \<Rightarrow> (error + DuplicateOrderCheck) \<times> store" where
  "check_with_cutoff fails cutoff orderIds st =
     (case select_recent fails cutoff st of
        (Inl e, st1) \<Rightarrow> (Inl e, st1)
      | (Inr recentOrders, st1) \<Rightarrow>
          (let duplicateOrderIds =
                 filter (\<lambda>oid. list_ex (\<lambda>r. orderId r = oid) recentOrders) orderIds
           in case get_all_orders fails orderIds st1 of
                (Inl e, st2) \<Rightarrow> (Inl e, st2)
              | (Inr newOrders, st2) \<Rightarrow>
                  (case classify duplicateOrderIds newOrders recentOrders of
                     Inl e \<Rightarrow> (Inl e, st2)
                   | Inr (level, override) \<Rightarrow>
                       (Inr \<lparr>isDuplicate = (duplicateOrderIds \<noteq> []),
                             existingOrders =
                               filter (\<lambda>r. orderId r \<in> set duplicateOrderIds) recentOrders,
                             requiresOverride = override,
                             riskLevel = level\<rparr>, st2))))"

text \<open>The whole body of the \<^verbatim>\<open>try\<close> block.\<close>

definition checkDuplicateOrders_try ::
  "faults \<Rightarrow> int \<Rightarrow> string list \<Rightarrow> store \<Rightarrow> (error + DuplicateOrderCheck) \<times> store" where
  "checkDuplicateOrders_try fails now orderIds st =
     check_with_cutoff fails (cutoffTime now) orderIds st"

definition FAIL_SAFE :: DuplicateOrderCheck where
  "FAIL_SAFE = \<lparr>isDuplicate = False, existingOrders = [], requiresOverride = True,
                riskLevel = CRITICAL\<rparr>"

text \<open>The \<^verbatim>\<open>catch\<close> block, lines 88 to 96.\<close>

definition catch_fail_safe ::
  "(error + DuplicateOrderCheck) \<times> store \<Rightarrow> DuplicateOrderCheck \<times> store" where
  "catch_fail_safe r =
     (case r of
        (Inl e, st') \<Rightarrow> (FAIL_SAFE, st')
      | (Inr chk, st') \<Rightarrow> (chk, st'))"

definition checkDuplicateOrders ::
  "faults \<Rightarrow> int \<Rightarrow> string list \<Rightarrow> store \<Rightarrow> DuplicateOrderCheck \<times> store" where
  "checkDuplicateOrders fails now orderIds st =
     catch_fail_safe (checkDuplicateOrders_try fails now orderIds st)"

section \<open>Override authorization gate\<close>

text \<open>
  \<^verbatim>\<open>verifyManagementAuthorization\<close> compares the code with the one static secret;
  the user and the reason only reach the console, and are kept in the log of the call.
  Nothing in it can raise, so its \<^verbatim>\<open>catch\<close> has no branch here.
\<close>

definition verifyManagementAuthorization ::
  "string \<Rightarrow> string \<Rightarrow> string \<Rightarrow> store \<Rightarrow> bool \<times> store" where
  "verifyManagementAuthorization overrideCode userId why st =
     (overrideCode = MANAGEMENT_OVERRIDE_CODE,
      logged [VerifyAuthorization overrideCode userId why] st)"

section \<open>Material ordering orchestrator\<close>

record process_result =
  success :: bool
  message :: string
  res_requiresOverride :: "bool option"
  res_duplicateCheck :: "DuplicateOrderCheck option"

text \<open>
  An optional text argument is truthy when it is given and not empty:
  \<^verbatim>\<open>!overrideCode\<close>, \<^verbatim>\<open>overrideCode ? true : false\<close>,
  \<^verbatim>\<open>overrideReason || '...'\<close>.
\<close>

definition supplied :: "string option \<Rightarrow> bool" where
  "supplied a = (case a of None \<Rightarrow> False | Some s \<Rightarrow> s \<noteq> [])"

definition text_or :: "string option \<Rightarrow> string \<Rightarrow> string" where
  "text_or a d = (case a of None \<Rightarrow> d | Some s \<Rightarrow> if s = [] then d else s)"

definition risk_name :: "risk \<Rightarrow> string" where
  "risk_name r =
     (case r of LOW \<Rightarrow> ''LOW'' | MEDIUM \<Rightarrow> ''MEDIUM'' | HIGH \<Rightarrow> ''HIGH''
      | CRITICAL \<Rightarrow> ''CRITICAL'')"

definition digit_char :: "nat \<Rightarrow> char" where
  "digit_char d = (''0123456789'' ! d)"

fun show_nat :: "nat \<Rightarrow> string" where
  "show_nat n = (if n < 10 then [digit_char n] else show_nat (n div 10) @ [digit_char (n mod 10)])"

text \<open>
  The row that \<^verbatim>\<open>logMaterialOrder\<close> inserts; its snapshot is
  \<^verbatim>\<open>JSON.stringify({timestamp, userId, wasOverridden})\<close>.
\<close>

definition audit_record :: "int \<Rightarrow> string \<Rightarrow> bool \<Rightarrow> string \<Rightarrow> audit" where
  "audit_record now userId wasOv oid =
     \<lparr>orderId = oid, orderedBy = userId, orderedAt = now, wasOverridden = wasOv,
      orderDetails =
        Snapshot \<lparr>od_timestamp = Some now, od_userId = Some userId,
                  od_wasOverridden = Some wasOv, od_materials = None, od_vendor = None\<rparr>\<rparr>"

text \<open>
  \<^verbatim>\<open>logMaterialOrder\<close> inserts the audit record; a failure of the insert is caught
  and only printed.
\<close>

definition logMaterialOrder ::
  "faults \<Rightarrow> int \<Rightarrow> string \<Rightarrow> string \<Rightarrow> bool \<Rightarrow> store \<Rightarrow> store" where
  "logMaterialOrder fails now oid userId wasOv st =
     (if fails (DbInsertAudit oid) then logged [DbInsertAudit oid] st
      else logged [DbInsertAudit oid]
             (st\<lparr>materialOrderHistory :=
                    materialOrderHistory st @ [audit_record now userId wasOv oid]\<rparr>))"

text \<open>
  One callback of step 4: update the status, log the order, report success; an error of
  the update is caught and reported as a failure of this order id. The callbacks of
  \<^verbatim>\<open>Promise.all\<close> are run here one after the other, in the order of the batch.
\<close>

definition process_one ::
  "faults \<Rightarrow> int \<Rightarrow> string \<Rightarrow> bool \<Rightarrow> string \<Rightarrow> store \<Rightarrow> (string \<times> bool) \<times> store" where
  "process_one fails now userId wasOv oid st =
     (case updateOrder fails now oid \<lparr>p_status = Some ''MATERIALS_ORDERED'', p_notes = None\<rparr> st of
        (Inl e, st1) \<Rightarrow> ((oid, False), st1)
      | (Inr u, st1) \<Rightarrow> ((oid, True), logMaterialOrder fails now oid userId wasOv st1))"

fun process_orders ::
  "faults \<Rightarrow> int \<Rightarrow> string \<Rightarrow> bool \<Rightarrow> string list \<Rightarrow> store
     \<Rightarrow> (string \<times> bool) list \<times> store" where
  "process_orders fails now userId wasOv [] st = ([], st)"
| "process_orders fails now userId wasOv (oid # rest) st =
     (case process_one fails now userId wasOv oid st of
        (r, st1) \<Rightarrow>
          (case process_orders fails now userId wasOv rest st1 of
             (rs, st2) \<Rightarrow> (r # rs, st2)))"

definition summary_message :: "nat \<Rightarrow> nat \<Rightarrow> bool \<Rightarrow> string" where
  "summary_message ok bad used =
     ''Successfully ordered materials for '' @ show_nat ok @ '' orders''
     @ (if bad > 0 then '', '' @ show_nat bad @ '' failed'' else [])
     @ (if used then '' (Management Override Used)'' else [])"

text \<open>
  Steps 2 to 5 of \<^verbatim>\<open>processMaterialOrder\<close>, lines 143 to 203: what is done with
  the result of the duplicate check.
\<close>

definition process_after_check ::
  "faults \<Rightarrow> int \<Rightarrow> string list \<Rightarrow> string \<Rightarrow> string option \<Rightarrow> string option
     \<Rightarrow> DuplicateOrderCheck \<Rightarrow> store \<Rightarrow> process_result \<times> store" where
  "process_after_check fails now orderIds userId overrideCode overrideReason duplicateCheck st1 =
     (if requiresOverride duplicateCheck \<and> \<not> supplied overrideCode
      then (\<lparr>success = False,
             message = ''MANAGEMENT OVERRIDE REQUIRED: '' @ risk_name (riskLevel duplicateCheck)
               @ '' risk detected. ''
               @ (if isDuplicate duplicateCheck then ''Duplicate orders found.''
                  else ''Similar orders recently placed.''),
             res_requiresOverride = Some True,
             res_duplicateCheck = Some duplicateCheck\<rparr>, st1)
      else
        (case (if requiresOverride duplicateCheck \<and> supplied overrideCode
               then verifyManagementAuthorization (text_or overrideCode []) userId
                      (text_or overrideReason ''Material ordering override'') st1
               else (True, st1)) of
           (authorized, st2) \<Rightarrow>
             if \<not> authorized
             then (\<lparr>success = False,
                    message = ''UNAUTHORIZED: Invalid management override code'',
                    res_requiresOverride = Some True,
                    res_duplicateCheck = Some duplicateCheck\<rparr>, st2)
             else
               (case process_orders fails now userId (supplied overrideCode) orderIds st2 of
                  (results, st3) \<Rightarrow>
                    (let successfulOrders = filter snd results;
                         failedOrders = filter (\<lambda>r. \<not> snd r) results
                     in (\<lparr>success = (length successfulOrders > 0),
                           message = summary_message (length successfulOrders)
                                       (length failedOrders) (supplied overrideCode),
                           res_requiresOverride = None,
                           res_duplicateCheck = Some duplicateCheck\<rparr>, st3)))))"

text \<open>
  \<^verbatim>\<open>processMaterialOrder\<close>: step 1, the duplicate check, and then the steps above.
  Each step inside its outer \<^verbatim>\<open>try\<close> catches its own errors (the detector, the
  gate, every callback), so the outer \<^verbatim>\<open>catch\<close> has no branch here.
\<close>

definition processMaterialOrder ::
  "faults \<Rightarrow> int \<Rightarrow> string list \<Rightarrow> string \<Rightarrow> string option \<Rightarrow> string option \<Rightarrow> store
     \<Rightarrow> process_result \<times> store" where
  "processMaterialOrder fails now orderIds userId overrideCode overrideReason st =
     (case checkDuplicateOrders fails now orderIds st of
        (duplicateCheck, st1) \<Rightarrow>
          process_after_check fails now orderIds userId overrideCode overrideReason
            duplicateCheck st1)"

section \<open>Status changes over HTTP\<close>

text \<open>
  The two handlers that change an order's status: \<^verbatim>\<open>PATCH /api/orders/:id/status\<close>
  and the general \<^verbatim>\<open>PATCH /api/orders/:id\<close>. The request carries the new status
  and the session's user id, if any. The notification service is outside the modelled code:
  starting its dispatch is a call that may raise, which the handler's
  \<^verbatim>\<open>catch\<close> turns into the 500 answer.
\<close>

datatype response = Json "order option" | NotFound | ServerError

definition patch_order_status ::
  "faults \<Rightarrow> int \<Rightarrow> string \<Rightarrow> string \<Rightarrow> string option \<Rightarrow> store \<Rightarrow> response \<times> store" where
  "patch_order_status fails now oid new_status user st =
     (case getOrder fails oid st of
        (Inl e, st1) \<Rightarrow> (ServerError, st1)
      | (Inr None, st1) \<Rightarrow> (NotFound, st1)
      | (Inr (Some currentOrder), st1) \<Rightarrow>
          (case updateOrder fails now oid \<lparr>p_status = Some new_status, p_notes = None\<rparr> st1 of
             (Inl e, st2) \<Rightarrow> (ServerError, st2)
           | (Inr u, st2) \<Rightarrow>
               (case createStatusHistory fails
                       \<lparr>sh_orderId = oid, fromStatus = Some (status currentOrder),
                        toStatus = new_status, changedBy = text_or user ''system'',
                        reason = None\<rparr> st2 of
                  (Inl e, st3) \<Rightarrow> (ServerError, st3)
                | (Inr h, st3) \<Rightarrow>
                    (case getOrder fails oid st3 of
                       (Inl e, st4) \<Rightarrow> (ServerError, st4)
                     | (Inr None, st4) \<Rightarrow> (Json None, st4)
                     | (Inr (Some completeOrder), st4) \<Rightarrow>
                         (if fails (SendStatusUpdate oid)
                          then (ServerError, logged [SendStatusUpdate oid] st4)
                          else (Json (Some completeOrder),
                                logged [SendStatusUpdate oid] st4))))))"

definition patch_order ::
  "faults \<Rightarrow> int \<Rightarrow> string \<Rightarrow> order_patch \<Rightarrow> string option \<Rightarrow> store \<Rightarrow> response \<times> store" where
  "patch_order fails now oid updates user st =
     (case getOrder fails oid st of
        (Inl e, st1) \<Rightarrow> (ServerError, st1)
      | (Inr None, st1) \<Rightarrow> (NotFound, st1)
      | (Inr (Some currentOrder), st1) \<Rightarrow>
          (case (if supplied (p_status updates)
                    \<and> text_or (p_status updates) [] \<noteq> status currentOrder
                 then
                   (case createStatusHistory fails
                           \<lparr>sh_orderId = oid, fromStatus = Some (status currentOrder),
                            toStatus = text_or (p_status updates) [],
                            changedBy = text_or user ''system'', reason = None\<rparr> st1 of
                      (Inl e, st2) \<Rightarrow> (Inl e, st2)
                    | (Inr h, st2) \<Rightarrow> (Inr (), st2))
                 else (Inr (), st1)) of
             (Inl e, st2) \<Rightarrow> (ServerError, st2)
           | (Inr u0, st2) \<Rightarrow>
               (case updateOrder fails now oid updates st2 of
                  (Inl e, st3) \<Rightarrow> (ServerError, st3)
                | (Inr u, st3) \<Rightarrow>
                    (case getOrder fails oid st3 of
                       (Inl e, st4) \<Rightarrow> (ServerError, st4)
                     | (Inr completeOrder, st4) \<Rightarrow> (Json completeOrder, st4)))))"

section \<open>Notions used in the properties\<close>

text \<open>The records at or after a cutoff, as the detector's query returns them.\<close>

definition recentOrders_of :: "int \<Rightarrow> store \<Rightarrow> audit list" where
  "recentOrders_of c st = filter (\<lambda>r. orderedAt r \<ge> c) (materialOrderHistory st)"

text \<open>
  The database answers the query for the recent window and the lookups of the orders of
  the batch.
\<close>

definition lookups_succeed :: "faults \<Rightarrow> int \<Rightarrow> string list \<Rightarrow> bool" where
  "lookups_succeed fails now orderIds =
     (\<not> fails (DbSelectRecent (cutoffTime now))
      \<and> \<not> list_ex (\<lambda>oid. fails (DbGetOrder oid)) orderIds)"

definition lookups_succeed_at :: "faults \<Rightarrow> int \<Rightarrow> string list \<Rightarrow> bool" where
  "lookups_succeed_at fails c orderIds =
     (\<not> fails (DbSelectRecent (Some c))
      \<and> \<not> list_ex (\<lambda>oid. fails (DbGetOrder oid)) orderIds)"

text \<open>
  The batch reaches step 4: no override is required, or the supplied code is the secret.
\<close>

definition reaches_processing :: "DuplicateOrderCheck \<Rightarrow> string option \<Rightarrow> bool" where
  "reaches_processing dc overrideCode =
     (if requiresOverride dc
      then supplied overrideCode \<and> text_or overrideCode [] = MANAGEMENT_OVERRIDE_CODE
      else True)"

text \<open>The store after step 3: the gate is called only when an override is required.\<close>

definition after_gate ::
  "DuplicateOrderCheck \<Rightarrow> string option \<Rightarrow> string \<Rightarrow> string option \<Rightarrow> store \<Rightarrow> store" where
  "after_gate dc overrideCode userId overrideReason st1 =
     (if requiresOverride dc \<and> supplied overrideCode
      then logged [VerifyAuthorization (text_or overrideCode []) userId
                     (text_or overrideReason ''Material ordering override'')] st1
      else st1)"

text \<open>What a run added to the call log and to the audit table.\<close>

definition new_calls :: "store \<Rightarrow> store \<Rightarrow> call list" where
  "new_calls st st' = drop (length (calls st)) (calls st')"

definition new_audits :: "store \<Rightarrow> store \<Rightarrow> audit list" where
  "new_audits st st' = drop (length (materialOrderHistory st)) (materialOrderHistory st')"

fun is_gate_call :: "call \<Rightarrow> bool" where
  "is_gate_call (VerifyAuthorization x u w) = True"
| "is_gate_call c = False"

fun is_write_call :: "call \<Rightarrow> bool" where
  "is_write_call (DbUpdateOrder x) = True"
| "is_write_call (DbInsertAudit x) = True"
| "is_write_call (DbInsertStatusHistory x) = True"
| "is_write_call c = False"

definition ordered :: "int \<Rightarrow> order \<Rightarrow> order" where
  "ordered now ord = ord\<lparr>status := ''MATERIALS_ORDERED'', updatedAt := now\<rparr>"

text \<open>The orders after step 4 on a batch.\<close>

definition orders_after ::
  "faults \<Rightarrow> int \<Rightarrow> string list \<Rightarrow> (string \<Rightarrow> order option) \<Rightarrow> string \<Rightarrow> order option" where
  "orders_after fails now orderIds os oid =
     (if oid \<in> set orderIds \<and> \<not> fails (DbUpdateOrder oid)
      then map_option (ordered now) (os oid) else os oid)"

text \<open>A record as \<^verbatim>\<open>logMaterialOrder\<close> writes it: no materials, no vendor.\<close>

definition written_by_log :: "audit \<Rightarrow> bool" where
  "written_by_log r =
     (case orderDetails r of
        Snapshot d \<Rightarrow> od_materials d = None \<and> od_vendor d = None
      | NoDetails \<Rightarrow> False
      | Malformed \<Rightarrow> False)"

section \<open>Example shop\<close>

text \<open>
  Two orders with the same frame code in their notes; the same shop after the materials
  of order A were ordered at time 1000 under a management override; a check result that
  requires no override; an oracle under which the database answers every call, and one
  under which the update of order B raises.
\<close>

definition no_faults :: faults where
  "no_faults c = False"

definition update_of_B_fails :: faults where
  "update_of_B_fails c = (c = DbUpdateOrder ''B'')"

definition order_A :: order where
  "order_A = \<lparr>status = ''ORDER_PROCESSED'', order_notes = Some ''Frame: R123'', updatedAt = 0\<rparr>"

definition order_B :: order where
  "order_B =
     \<lparr>status = ''ORDER_PROCESSED'', order_notes = Some ''Oak, Frame: R123'', updatedAt = 0\<rparr>"

definition shop :: store where
  "shop = \<lparr>orders = [''A'' \<mapsto> order_A, ''B'' \<mapsto> order_B], materialOrderHistory = [],
           statusHistory = [], calls = []\<rparr>"

definition shop_A_ordered :: store where
  "shop_A_ordered =
     \<lparr>orders = [''A'' \<mapsto> order_A\<lparr>status := ''MATERIALS_ORDERED'', updatedAt := 1000\<rparr>,
                 ''B'' \<mapsto> order_B],
      materialOrderHistory = [audit_record 1000 ''u1'' True ''A''],
      statusHistory = [], calls = []\<rparr>"

definition low_check :: DuplicateOrderCheck where
  "low_check = \<lparr>isDuplicate = False, existingOrders = [], requiresOverride = False,
                riskLevel = LOW\<rparr>"

lemmas eval_defs =
  processMaterialOrder_def process_after_check_def checkDuplicateOrders_def
  checkDuplicateOrders_try_def check_with_cutoff_def catch_fail_safe_def
  this_DUPLICATE_THRESHOLD_HOURS_def
  select_recent_def get_all_orders_def classify_def checkVendorOrderLimits_def
  extractMaterialsFromNotes_def notes_or_empty_def parse_details_def
  calculateMaterialSimilarity_def material_key_def cutoffTime_def DUPLICATE_THRESHOLD_HOURS_def
  MAX_DAILY_ORDERS_PER_VENDOR_def MANAGEMENT_OVERRIDE_CODE_def FAIL_SAFE_def
  verifyManagementAuthorization_def supplied_def text_or_def risk_name_def digit_char_def
  logMaterialOrder_def process_one_def updateOrder_def apply_patch_def getOrder_def
  createStatusHistory_def summary_message_def logged_def is_digit_def Let_def
  no_faults_def order_A_def order_B_def shop_def audit_record_def
  shop_A_ordered_def update_of_B_fails_def low_check_def
  new_calls_def new_audits_def reaches_processing_def lookups_succeed_def
  lookups_succeed_at_def recentOrders_of_def orders_after_def ordered_def
  patch_order_status_def patch_order_def

section \<open>The detector\<close>

text \<open>The cutoff of every run is an invalid date, so the window query raises.\<close>

lemma cutoffTime_invalid: "cutoffTime now = None"
  by (simp add: cutoffTime_def this_DUPLICATE_THRESHOLD_HOURS_def)

lemma checkDuplicateOrders_try_raises:
  "checkDuplicateOrders_try fails now orderIds st =
     (Inl RangeError, logged [DbSelectRecent None] st)"
  by (simp add: checkDuplicateOrders_try_def check_with_cutoff_def select_recent_def
      cutoffTime_invalid)

lemma checkDuplicateOrders_always_fail_safe:
  "checkDuplicateOrders fails now orderIds st = (FAIL_SAFE, logged [DbSelectRecent None] st)"
  by (simp add: checkDuplicateOrders_def catch_fail_safe_def checkDuplicateOrders_try_raises)

lemma catch_fail_safe_fst:
  "fst (catch_fail_safe r) = (case fst r of Inl e \<Rightarrow> FAIL_SAFE | Inr chk \<Rightarrow> chk)"
  by (cases r) (simp add: catch_fail_safe_def split: sum.splits)

lemma catch_fail_safe_snd: "snd (catch_fail_safe r) = snd r"
  by (cases r) (simp add: catch_fail_safe_def split: sum.splits)

lemma checkDuplicateOrders_fst:
  "fst (checkDuplicateOrders fails now orderIds st) =
     (case fst (checkDuplicateOrders_try fails now orderIds st) of
        Inl e \<Rightarrow> FAIL_SAFE | Inr chk \<Rightarrow> chk)"
  by (simp add: checkDuplicateOrders_def catch_fail_safe_fst)

text \<open>The detector only reads: the three tables are as before, the log has grown.\<close>

lemma checkDuplicateOrders_fields:
  "orders (snd (checkDuplicateOrders fails now orderIds st)) = orders st"
  "materialOrderHistory (snd (checkDuplicateOrders fails now orderIds st)) = materialOrderHistory st"
  "statusHistory (snd (checkDuplicateOrders fails now orderIds st)) = statusHistory st"
  by (simp_all add: checkDuplicateOrders_always_fail_safe logged_def)

lemma checkDuplicateOrders_calls:
  "calls (snd (checkDuplicateOrders fails now orderIds st)) =
     calls st @ [DbSelectRecent (cutoffTime now)]"
  by (simp add: checkDuplicateOrders_always_fail_safe logged_def cutoffTime_invalid)

lemma no_gate_in_lookups: "\<not> list_ex is_gate_call (map DbGetOrder orderIds)"
  by (induction orderIds) simp_all

lemma no_write_in_lookups: "\<not> list_ex is_write_call (map DbGetOrder orderIds)"
  by (induction orderIds) simp_all

section \<open>The body of the check for a given cutoff\<close>

text \<open>
  What raises inside the \<^verbatim>\<open>try\<close> block from line 49 on and what it returns when
  nothing does, for every cutoff: the code of lines 49 to 86 as it is written, which a
  run enters with the invalid date only.
\<close>

lemma check_invalid_cutoff:
  "fst (check_with_cutoff fails None orderIds st) = Inl RangeError"
  by (simp add: check_with_cutoff_def select_recent_def)

lemma check_lookup_failure:
  "\<not> lookups_succeed_at fails c orderIds \<Longrightarrow>
     fst (check_with_cutoff fails (Some c) orderIds st) = Inl DbError"
  by (auto simp: lookups_succeed_at_def check_with_cutoff_def select_recent_def
      get_all_orders_def Let_def)

lemma check_malformed_snapshot:
  assumes "lookups_succeed_at fails c [oid]"
    and "orders st oid = Some ord"
    and "recentOrders_of c st = [r]"
    and "orderId r \<noteq> oid"
    and "orderDetails r = Malformed"
  shows "fst (check_with_cutoff fails (Some c) [oid] st) = Inl JsonError"
  using assms
  by (simp add: lookups_succeed_at_def check_with_cutoff_def select_recent_def
      get_all_orders_def Let_def recentOrders_of_def classify_def parse_details_def logged_def)

lemma check_lookups_succeed:
  "lookups_succeed_at fails c orderIds \<Longrightarrow>
     fst (check_with_cutoff fails (Some c) orderIds st) =
       (case classify
               (filter (\<lambda>oid. list_ex (\<lambda>r. orderId r = oid) (recentOrders_of c st)) orderIds)
               (map (orders st) orderIds) (recentOrders_of c st) of
          Inl e \<Rightarrow> Inl e
        | Inr (level, override) \<Rightarrow>
            Inr \<lparr>isDuplicate =
                   (filter (\<lambda>oid. list_ex (\<lambda>r. orderId r = oid) (recentOrders_of c st))
                      orderIds \<noteq> []),
                 existingOrders =
                   filter (\<lambda>r. orderId r \<in> set (filter
                             (\<lambda>oid. list_ex (\<lambda>r. orderId r = oid) (recentOrders_of c st))
                             orderIds))
                     (recentOrders_of c st),
                 requiresOverride = override, riskLevel = level\<rparr>)"
  by (auto simp: lookups_succeed_at_def check_with_cutoff_def select_recent_def
      get_all_orders_def Let_def recentOrders_of_def logged_def split: sum.splits)

lemma existing_filter:
  "filter (\<lambda>r. orderId r \<in> set orderIds \<and> list_ex (\<lambda>x. orderId x = orderId r) rs) rs
     = filter (\<lambda>r. orderId r \<in> set orderIds) rs"
  by (rule filter_cong) (auto simp: list_ex_iff)

lemma classify_inv:
  "classify d n r = Inr (level, ov) \<Longrightarrow>
     (ov \<longleftrightarrow> level \<noteq> LOW) \<and> (d \<noteq> [] \<longrightarrow> level = CRITICAL)"
  by (auto simp: classify_def split: if_splits sum.splits bool.splits)

lemma check_inv:
  "fst (check_with_cutoff fails cutoff orderIds st) = Inr c \<Longrightarrow>
     (requiresOverride c \<longleftrightarrow> riskLevel c \<noteq> LOW) \<and> (isDuplicate c \<longrightarrow> riskLevel c = CRITICAL)"
  by (auto simp: check_with_cutoff_def Let_def split: sum.splits prod.splits
      dest: classify_inv)

lemma guarded_check_inv:
  "(requiresOverride (fst (catch_fail_safe (check_with_cutoff fails cutoff orderIds st)))
      \<longleftrightarrow> riskLevel (fst (catch_fail_safe (check_with_cutoff fails cutoff orderIds st))) \<noteq> LOW)
   \<and> (isDuplicate (fst (catch_fail_safe (check_with_cutoff fails cutoff orderIds st)))
      \<longrightarrow> riskLevel (fst (catch_fail_safe (check_with_cutoff fails cutoff orderIds st)))
            = CRITICAL)"
proof (cases "fst (check_with_cutoff fails cutoff orderIds st)")
  case (Inl e)
  then show ?thesis by (simp add: catch_fail_safe_fst FAIL_SAFE_def)
next
  case (Inr c)
  with check_inv [OF Inr] show ?thesis by (simp add: catch_fail_safe_fst)
qed

text \<open>
  With a valid cutoff the body finds the exact duplicate: the lines after line 47 do what
  they are written for.
\<close>

lemma exact_duplicate_with_valid_cutoff:
  assumes "r \<in> set (materialOrderHistory st)"
    and "orderId r \<in> set orderIds"
    and "c \<le> orderedAt r"
    and "lookups_succeed_at fails c orderIds"
  shows "fst (catch_fail_safe (check_with_cutoff fails (Some c) orderIds st)) =
      \<lparr>isDuplicate = True,
       existingOrders = filter (\<lambda>x. orderId x \<in> set orderIds) (recentOrders_of c st),
       requiresOverride = True, riskLevel = CRITICAL\<rparr>"
proof -
  let ?recent = "recentOrders_of c st"
  let ?dups = "filter (\<lambda>oid. list_ex (\<lambda>x. orderId x = oid) ?recent) orderIds"
  from assms have rin: "r \<in> set ?recent" by (simp add: recentOrders_of_def)
  with assms(2) have "orderId r \<in> set ?dups" by (auto simp: list_ex_iff)
  then have dups: "?dups \<noteq> []" by (metis empty_iff empty_set)
  then have cl: "classify ?dups (map (orders st) orderIds) ?recent = Inr (CRITICAL, True)"
    by (simp add: classify_def)
  show ?thesis
    using dups
    by (simp add: catch_fail_safe_fst check_lookups_succeed [OF assms(4)] cl existing_filter)
qed

lemma declared_threshold_finds_duplicate:
  "fst (catch_fail_safe (check_with_cutoff no_faults
          (Some (2000 - DUPLICATE_THRESHOLD_HOURS * 3600000)) [''A''] shop_A_ordered)) =
      \<lparr>isDuplicate = True, existingOrders = [audit_record 1000 ''u1'' True ''A''],
       requiresOverride = True, riskLevel = CRITICAL\<rparr>"
  by (simp add: eval_defs)

section \<open>The similarity check and the service's own log\<close>

lemma audit_record_written_by_log: "written_by_log (audit_record now userId wasOv oid)"
  by (simp add: written_by_log_def audit_record_def)

lemma similarity_with_nothing: "calculateMaterialSimilarity ms [] = 0"
  by (simp add: calculateMaterialSimilarity_def)

lemma similar_to_recent_own_log:
  "list_all written_by_log rs \<Longrightarrow> similar_to_recent ms rs = Inr False"
  by (induction rs)
     (auto simp: written_by_log_def parse_details_def similarity_with_nothing
       split: details_column.splits)

lemma checkSimilarMaterials_own_log:
  "list_all written_by_log rs \<Longrightarrow> checkSimilarMaterials newOrders rs = Inr False"
proof (induction newOrders)
  case Nil
  show ?case by simp
next
  case (Cons x rest)
  then show ?case by (cases x) (simp_all add: similar_to_recent_own_log)
qed

lemma count_vendors_own_log:
  "list_all written_by_log rs \<Longrightarrow>
     \<exists>vc'. count_vendors rs vc = Inr vc' \<and> (\<forall>v. v \<noteq> ''Unknown'' \<longrightarrow> vc' v = vc v)"
proof (induction rs arbitrary: vc)
  case Nil
  show ?case by simp
next
  case (Cons r rs)
  from Cons.prems have r: "written_by_log r" and rs: "list_all written_by_log rs" by simp_all
  from r obtain d where d: "orderDetails r = Snapshot d" "od_vendor d = None"
    by (auto simp: written_by_log_def split: details_column.splits)
  obtain vc' where vc': "count_vendors rs (vc(''Unknown'' := vc ''Unknown'' + 1)) = Inr vc'"
    "\<forall>v. v \<noteq> ''Unknown'' \<longrightarrow> vc' v = (vc(''Unknown'' := vc ''Unknown'' + 1)) v"
    using Cons.IH [OF rs] by blast
  show ?case using d vc' by (simp add: parse_details_def)
qed

lemma extracted_vendor_known:
  "m \<in> set (extractMaterialsFromNotes ns) \<Longrightarrow> vendor m \<noteq> ''Unknown''"
  by (auto simp: extractMaterialsFromNotes_def split: option.splits if_splits)

lemma over_limit_none:
  "\<forall>v. v \<noteq> ''Unknown'' \<longrightarrow> vc v = 0 \<Longrightarrow> \<not> over_limit vc newOrders"
  by (induction vc newOrders rule: over_limit.induct)
     (auto simp: list_ex_iff MAX_DAILY_ORDERS_PER_VENDOR_def dest: extracted_vendor_known)

lemma checkVendorOrderLimits_own_log:
  "list_all written_by_log rs \<Longrightarrow> checkVendorOrderLimits newOrders rs = Inr False"
proof -
  assume "list_all written_by_log rs"
  then obtain vc' where "count_vendors rs (\<lambda>v. 0) = Inr vc'"
    "\<forall>v. v \<noteq> ''Unknown'' \<longrightarrow> vc' v = 0"
    using count_vendors_own_log [of rs "\<lambda>v. 0"] by auto
  then show ?thesis by (simp add: checkVendorOrderLimits_def over_limit_none)
qed

text \<open>
  A second defect behind the first: also with a valid cutoff, an audit table that holds
  only records written by \<^verbatim>\<open>logMaterialOrder\<close> never gives HIGH or MEDIUM, since the
  snapshots carry neither materials nor a vendor.
\<close>

lemma own_log_never_high:
  assumes "list_all written_by_log (materialOrderHistory st)"
  shows "riskLevel (fst (catch_fail_safe (check_with_cutoff fails cutoff orderIds st))) \<noteq> HIGH
       \<and> riskLevel (fst (catch_fail_safe (check_with_cutoff fails cutoff orderIds st))) \<noteq> MEDIUM"
proof (cases cutoff)
  case None
  then show ?thesis by (simp add: catch_fail_safe_fst check_invalid_cutoff FAIL_SAFE_def)
next
  case (Some c)
  show ?thesis
  proof (cases "lookups_succeed_at fails c orderIds")
    case False
    then show ?thesis
      by (simp add: Some catch_fail_safe_fst check_lookup_failure FAIL_SAFE_def)
  next
    case True
    from assms have rec: "list_all written_by_log (recentOrders_of c st)"
      by (simp add: recentOrders_of_def list_all_iff)
    show ?thesis
      by (simp add: Some catch_fail_safe_fst check_lookups_succeed [OF True] classify_def
          checkSimilarMaterials_own_log [OF rec] checkVendorOrderLimits_own_log [OF rec])
  qed
qed

text \<open>With a valid cutoff and the materials in the snapshot, the body answers HIGH.\<close>

lemma stored_materials_give_high:
  "fst (catch_fail_safe (check_with_cutoff no_faults
      (Some (1000 + 3600000 - DUPLICATE_THRESHOLD_HOURS * 3600000)) [''B'']
      (shop\<lparr>materialOrderHistory :=
         [\<lparr>orderId = ''A'', orderedBy = ''u1'', orderedAt = 1000, wasOverridden = True,
           orderDetails = Snapshot \<lparr>od_timestamp = Some 1000, od_userId = Some ''u1'',
             od_wasOverridden = Some True,
             od_materials = Some [\<lparr>vendor = ''Roma Moulding'', item = ''R123''\<rparr>],
             od_vendor = None\<rparr>\<rparr>]\<rparr>)))
     = \<lparr>isDuplicate = False, existingOrders = [], requiresOverride = True, riskLevel = HIGH\<rparr>"
  by (simp add: eval_defs)

section \<open>The processing step\<close>

lemma process_one_fst:
  "fst (process_one fails now userId wasOv oid st) = (oid, \<not> fails (DbUpdateOrder oid))"
  by (simp add: process_one_def updateOrder_def split: option.splits)

lemma process_one_history:
  "materialOrderHistory (snd (process_one fails now userId wasOv oid st)) =
     materialOrderHistory st @
       (if \<not> fails (DbUpdateOrder oid) \<and> \<not> fails (DbInsertAudit oid)
        then [audit_record now userId wasOv oid] else [])"
  by (simp add: process_one_def updateOrder_def logMaterialOrder_def logged_def
      split: option.splits)

lemma process_one_statusHistory:
  "statusHistory (snd (process_one fails now userId wasOv oid st)) = statusHistory st"
  by (simp add: process_one_def updateOrder_def logMaterialOrder_def logged_def
      split: option.splits)





lemma process_orders_Cons:
  "process_orders fails now userId wasOv (oid # rest) st =
     (fst (process_one fails now userId wasOv oid st)
        # fst (process_orders fails now userId wasOv rest
                 (snd (process_one fails now userId wasOv oid st))),
      snd (process_orders fails now userId wasOv rest
             (snd (process_one fails now userId wasOv oid st))))"
  by (simp split: prod.splits)

text \<open>An order id fails exactly when its status update raises.\<close>

lemma process_orders_fst:
  "fst (process_orders fails now userId wasOv orderIds st) =
     map (\<lambda>oid. (oid, \<not> fails (DbUpdateOrder oid))) orderIds"
  by (induction orderIds arbitrary: st)
     (simp_all only: process_orders.simps(1) process_orders_Cons fst_conv snd_conv
        process_one_fst list.map)

text \<open>One audit record for every order id whose update and insert both went through.\<close>

lemma process_orders_history:
  "materialOrderHistory (snd (process_orders fails now userId wasOv orderIds st)) =
     materialOrderHistory st @
       map (audit_record now userId wasOv)
         (filter (\<lambda>oid. \<not> fails (DbUpdateOrder oid) \<and> \<not> fails (DbInsertAudit oid)) orderIds)"
proof (induction orderIds arbitrary: st)
  case Nil
  show ?case by simp
next
  case (Cons oid rest)
  show ?case
    by (simp only: process_orders_Cons snd_conv Cons.IH process_one_history) simp
qed

lemma process_orders_statusHistory:
  "statusHistory (snd (process_orders fails now userId wasOv orderIds st)) = statusHistory st"
proof (induction orderIds arbitrary: st)
  case Nil
  show ?case by simp
next
  case (Cons oid rest)
  show ?case
    by (simp only: process_orders_Cons snd_conv Cons.IH process_one_statusHistory)
qed




lemma process_orders_own_log:
  "list_all written_by_log (materialOrderHistory st) \<Longrightarrow>
     list_all written_by_log
       (materialOrderHistory (snd (process_orders fails now userId wasOv orderIds st)))"
  by (auto simp: process_orders_history list_all_iff audit_record_written_by_log)

lemma count_results:
  "length (filter snd (map (\<lambda>oid. (oid, \<not> fails (DbUpdateOrder oid))) orderIds)) =
     length (filter (\<lambda>oid. \<not> fails (DbUpdateOrder oid)) orderIds)"
  "length (filter (\<lambda>r. \<not> snd r) (map (\<lambda>oid. (oid, \<not> fails (DbUpdateOrder oid))) orderIds)) =
     length orderIds - length (filter (\<lambda>oid. \<not> fails (DbUpdateOrder oid)) orderIds)"
  by (induction orderIds) (auto simp: Suc_diff_le)

lemma show_nat_examples:
  "show_nat 0 = ''0''" "show_nat 7 = ''7''" "show_nat 42 = ''42''" "show_nat 120 = ''120''"
  by (simp_all add: digit_char_def)

section \<open>The three ways through the orchestrator\<close>

lemma after_gate_fields:
  "orders (after_gate dc code userId why st) = orders st"
  "materialOrderHistory (after_gate dc code userId why st) = materialOrderHistory st"
  "statusHistory (after_gate dc code userId why st) = statusHistory st"
  by (simp_all add: after_gate_def logged_def)

lemma after_gate_calls:
  "calls (after_gate dc code userId why st) =
     calls st @ (if requiresOverride dc \<and> supplied code
                 then [VerifyAuthorization (text_or code []) userId
                         (text_or why ''Material ordering override'')]
                 else [])"
  by (simp add: after_gate_def logged_def)

lemma three_ways:
  "(requiresOverride dc \<and> \<not> supplied code)
   \<or> (requiresOverride dc \<and> supplied code \<and> text_or code [] \<noteq> MANAGEMENT_OVERRIDE_CODE)
   \<or> reaches_processing dc code"
  by (auto simp: reaches_processing_def)

lemma process_after_check_rejected:
  assumes "requiresOverride dc" and "\<not> supplied overrideCode"
  shows "process_after_check fails now orderIds userId overrideCode overrideReason dc st1 =
     (\<lparr>success = False,
       message = ''MANAGEMENT OVERRIDE REQUIRED: '' @ risk_name (riskLevel dc)
         @ '' risk detected. ''
         @ (if isDuplicate dc then ''Duplicate orders found.''
            else ''Similar orders recently placed.''),
       res_requiresOverride = Some True,
       res_duplicateCheck = Some dc\<rparr>, st1)"
  using assms by (simp add: process_after_check_def)

lemma process_after_check_unauthorized:
  assumes "requiresOverride dc" and "supplied overrideCode"
    and "text_or overrideCode [] \<noteq> MANAGEMENT_OVERRIDE_CODE"
  shows "process_after_check fails now orderIds userId overrideCode overrideReason dc st1 =
     (\<lparr>success = False,
       message = ''UNAUTHORIZED: Invalid management override code'',
       res_requiresOverride = Some True,
       res_duplicateCheck = Some dc\<rparr>,
      after_gate dc overrideCode userId overrideReason st1)"
  using assms
  by (simp add: process_after_check_def verifyManagementAuthorization_def after_gate_def)

lemma process_after_check_processed:
  assumes "reaches_processing dc overrideCode"
  shows "process_after_check fails now orderIds userId overrideCode overrideReason dc st1 =
     (\<lparr>success = (0 < length (filter (\<lambda>oid. \<not> fails (DbUpdateOrder oid)) orderIds)),
       message = summary_message
         (length (filter (\<lambda>oid. \<not> fails (DbUpdateOrder oid)) orderIds))
         (length orderIds - length (filter (\<lambda>oid. \<not> fails (DbUpdateOrder oid)) orderIds))
         (supplied overrideCode),
       res_requiresOverride = None,
       res_duplicateCheck = Some dc\<rparr>,
      snd (process_orders fails now userId (supplied overrideCode) orderIds
             (after_gate dc overrideCode userId overrideReason st1)))"
proof -
  let ?st2 = "after_gate dc overrideCode userId overrideReason st1"
  obtain results st3 where po:
    "process_orders fails now userId (supplied overrideCode) orderIds ?st2 = (results, st3)"
    by (cases "process_orders fails now userId (supplied overrideCode) orderIds ?st2")
  have res: "results = map (\<lambda>oid. (oid, \<not> fails (DbUpdateOrder oid))) orderIds"
    using process_orders_fst [of fails now userId "supplied overrideCode" orderIds ?st2] po
    by simp
  have ok: "length (filter snd results) =
      length (filter (\<lambda>oid. \<not> fails (DbUpdateOrder oid)) orderIds)"
    unfolding res by (rule count_results(1))
  have bad: "length (filter (\<lambda>r. \<not> snd r) results) =
      length orderIds - length (filter (\<lambda>oid. \<not> fails (DbUpdateOrder oid)) orderIds)"
    unfolding res by (rule count_results(2))
  have none: "(filter snd results = []) =
      (filter (\<lambda>oid. \<not> fails (DbUpdateOrder oid)) orderIds = [])"
    using ok by (metis length_0_conv)
  show ?thesis
    using assms po
    by (auto simp: process_after_check_def reaches_processing_def after_gate_def
        verifyManagementAuthorization_def ok bad none Let_def split: if_splits)
qed

text \<open>Step 1 and the rest; and step 1 as every run performs it.\<close>

lemma processMaterialOrder_unfold:
  "processMaterialOrder fails now orderIds userId overrideCode overrideReason st =
     process_after_check fails now orderIds userId overrideCode overrideReason
       (fst (checkDuplicateOrders fails now orderIds st))
       (snd (checkDuplicateOrders fails now orderIds st))"
  by (cases "checkDuplicateOrders fails now orderIds st") (simp add: processMaterialOrder_def)

lemma processMaterialOrder_fail_safe:
  "processMaterialOrder fails now orderIds userId overrideCode overrideReason st =
     process_after_check fails now orderIds userId overrideCode overrideReason
       FAIL_SAFE (logged [DbSelectRecent None] st)"
  by (simp add: processMaterialOrder_unfold checkDuplicateOrders_always_fail_safe)



lemma processMaterialOrder_right_code:
  assumes "supplied overrideCode" and "text_or overrideCode [] = MANAGEMENT_OVERRIDE_CODE"
  shows "processMaterialOrder fails now orderIds userId overrideCode overrideReason st =
     (\<lparr>success = (0 < length (filter (\<lambda>oid. \<not> fails (DbUpdateOrder oid)) orderIds)),
       message = summary_message
         (length (filter (\<lambda>oid. \<not> fails (DbUpdateOrder oid)) orderIds))
         (length orderIds - length (filter (\<lambda>oid. \<not> fails (DbUpdateOrder oid)) orderIds))
         True,
       res_requiresOverride = None,
       res_duplicateCheck = Some FAIL_SAFE\<rparr>,
      snd (process_orders fails now userId True orderIds
             (logged [DbSelectRecent None,
                      VerifyAuthorization MANAGEMENT_OVERRIDE_CODE userId
                        (text_or overrideReason ''Material ordering override'')] st)))"
proof -
  have reach: "reaches_processing FAIL_SAFE overrideCode"
    using assms by (simp add: reaches_processing_def)
  have gate: "after_gate FAIL_SAFE overrideCode userId overrideReason
        (logged [DbSelectRecent None] st) =
      logged [DbSelectRecent None,
              VerifyAuthorization MANAGEMENT_OVERRIDE_CODE userId
                (text_or overrideReason ''Material ordering override'')] st"
    using assms by (simp add: after_gate_def FAIL_SAFE_def logged_def)
  have code: "supplied overrideCode = True" using assms(1) by simp
  show ?thesis
    by (simp only: processMaterialOrder_fail_safe process_after_check_processed [OF reach]
        gate code)
qed


text \<open>No path through the orchestrator writes a status history entry.\<close>

lemma process_after_check_statusHistory:
  "statusHistory
     (snd (process_after_check fails now orderIds userId overrideCode overrideReason dc st1))
     = statusHistory st1"
proof -
  consider (rej) "requiresOverride dc" "\<not> supplied overrideCode"
    | (unauth) "requiresOverride dc" "supplied overrideCode"
        "text_or overrideCode [] \<noteq> MANAGEMENT_OVERRIDE_CODE"
    | (ok) "reaches_processing dc overrideCode"
    using three_ways [of dc overrideCode] by blast
  then show ?thesis
  proof cases
    case rej
    then show ?thesis by (simp add: process_after_check_rejected)
  next
    case unauth
    then show ?thesis by (simp add: process_after_check_unauthorized after_gate_fields)
  next
    case ok
    then show ?thesis
      by (simp add: process_after_check_processed process_orders_statusHistory
          after_gate_fields)
  qed
qed

lemma processMaterialOrder_statusHistory:
  "statusHistory (snd (processMaterialOrder fails now orderIds userId overrideCode overrideReason st))
     = statusHistory st"
  by (simp add: processMaterialOrder_unfold process_after_check_statusHistory
      checkDuplicateOrders_fields)

text \<open>
  The counts of the summary are the counts of the order ids whose status update did and
  did not raise, whether or not a row of that id exists.
\<close>

lemma summary_counts_updates_that_do_not_raise:
  assumes "supplied overrideCode" and "text_or overrideCode [] = MANAGEMENT_OVERRIDE_CODE"
  shows "success (fst (processMaterialOrder fails now orderIds userId overrideCode overrideReason st))
      = (0 < length (filter (\<lambda>oid. \<not> fails (DbUpdateOrder oid)) orderIds))
    \<and> message (fst (processMaterialOrder fails now orderIds userId overrideCode overrideReason st))
      = ''Successfully ordered materials for ''
        @ show_nat (length (filter (\<lambda>oid. \<not> fails (DbUpdateOrder oid)) orderIds)) @ '' orders''
        @ (if 0 < length orderIds - length (filter (\<lambda>oid. \<not> fails (DbUpdateOrder oid)) orderIds)
           then '', '' @ show_nat (length orderIds
                    - length (filter (\<lambda>oid. \<not> fails (DbUpdateOrder oid)) orderIds)) @ '' failed''
           else [])
        @ '' (Management Override Used)''"
  by (simp add: processMaterialOrder_right_code [OF assms] summary_message_def)

text \<open>An update that raises is counted as a failure of its order id.\<close>

lemma failed_update_is_counted:
  "fst (processMaterialOrder update_of_B_fails 2000 [''A'', ''B''] ''u2''
          (Some MANAGEMENT_OVERRIDE_CODE) (Some ''reorder'') shop_A_ordered) =
     \<lparr>success = True,
      message = ''Successfully ordered materials for 1 orders, 1 failed (Management Override Used)'',
      res_requiresOverride = None,
      res_duplicateCheck = Some \<lparr>isDuplicate = False, existingOrders = [],
         requiresOverride = True, riskLevel = CRITICAL\<rparr>\<rparr>"
  by (simp add: eval_defs)

section \<open>The status handlers\<close>

text \<open>The status route appends an entry on every call that goes through.\<close>

lemma patch_order_status_appends:
  assumes "orders st oid = Some cur"
    and "\<not> fails (DbGetOrder oid)" "\<not> fails (DbUpdateOrder oid)"
    and "\<not> fails (DbInsertStatusHistory oid)"
  shows "statusHistory (snd (patch_order_status fails now oid new_status user st)) =
           statusHistory st @
             [\<lparr>sh_orderId = oid, fromStatus = Some (status cur), toStatus = new_status,
               changedBy = text_or user ''system'', reason = None\<rparr>]"
  using assms
  by (simp add: patch_order_status_def getOrder_def updateOrder_def createStatusHistory_def
      logged_def)

text \<open>The general route writes nothing when the status stays what it is.\<close>

lemma patch_order_same_status:
  assumes "orders st oid = Some cur" and "p_status updates = Some (status cur)"
  shows "statusHistory (snd (patch_order fails now oid updates user st)) = statusHistory st"
  using assms
  by (simp add: patch_order_def getOrder_def updateOrder_def createStatusHistory_def
      logged_def supplied_def text_or_def split: option.splits)

section \<open>Claims\<close>

text \<open>
  C1. Every order id that processMaterialOrder processes successfully gets the status
  MATERIALS_ORDERED with one status history entry for the change, and one audit record
  with wasOverridden telling whether an override code was used. At the batch of order A
  alone under the management override, with no failure of the database, the status is set
  and the audit record is written with wasOverridden = true, but the status history
  stays empty; the general PATCH route, given the same change, writes the entry.
\<close>

theorem materials_ordered_without_status_history:
  "orders shop ''A'' = Some order_A
   \<and> status order_A = ''ORDER_PROCESSED''
   \<and> statusHistory shop = []
   \<and> fst (processMaterialOrder no_faults 1000 [''A''] ''u1''
            (Some MANAGEMENT_OVERRIDE_CODE) (Some ''reorder'') shop) =
       \<lparr>success = True,
        message = ''Successfully ordered materials for 1 orders (Management Override Used)'',
        res_requiresOverride = None,
        res_duplicateCheck = Some \<lparr>isDuplicate = False, existingOrders = [],
           requiresOverride = True, riskLevel = CRITICAL\<rparr>\<rparr>
   \<and> map_option status
        (orders (snd (processMaterialOrder no_faults 1000 [''A''] ''u1''
                        (Some MANAGEMENT_OVERRIDE_CODE) (Some ''reorder'') shop)) ''A'')
       = Some ''MATERIALS_ORDERED''
   \<and> materialOrderHistory (snd (processMaterialOrder no_faults 1000 [''A''] ''u1''
                        (Some MANAGEMENT_OVERRIDE_CODE) (Some ''reorder'') shop))
       = [audit_record 1000 ''u1'' True ''A'']
   \<and> statusHistory (snd (processMaterialOrder no_faults 1000 [''A''] ''u1''
                        (Some MANAGEMENT_OVERRIDE_CODE) (Some ''reorder'') shop)) = []
   \<and> statusHistory
        (snd (patch_order no_faults 1000 ''A''
                \<lparr>p_status = Some ''MATERIALS_ORDERED'', p_notes = None\<rparr> (Some ''u1'') shop))
       = [\<lparr>sh_orderId = ''A'', fromStatus = Some ''ORDER_PROCESSED'',
           toStatus = ''MATERIALS_ORDERED'', changedBy = ''u1'', reason = None\<rparr>]"
  by (simp add: eval_defs)

text \<open>
  C2. Whenever anything raises inside checkDuplicateOrders, a failed lookup of the
  persistence for one, the result is exactly the fail-safe one: not a duplicate, no
  existing orders, override required, risk CRITICAL.
\<close>

theorem check_error_yields_fail_safe:
  assumes "fst (checkDuplicateOrders_try fails now orderIds st) = Inl e
           \<or> \<not> lookups_succeed fails now orderIds"
  shows "fst (checkDuplicateOrders fails now orderIds st) =
           \<lparr>isDuplicate = False, existingOrders = [], requiresOverride = True,
            riskLevel = CRITICAL\<rparr>"
proof -
  obtain e' where "fst (checkDuplicateOrders_try fails now orderIds st) = Inl e'"
    by (simp add: checkDuplicateOrders_try_raises)
  then show ?thesis by (simp add: checkDuplicateOrders_fst FAIL_SAFE_def)
qed

text \<open>
  The error of every run, the invalid date of the window query, with an exact duplicate
  of order A in the audit table.
\<close>

theorem check_error_yields_fail_safe_witness:
  "fst (checkDuplicateOrders_try no_faults 2000 [''A''] shop_A_ordered) = Inl RangeError
   \<and> fst (checkDuplicateOrders no_faults 2000 [''A''] shop_A_ordered) =
       \<lparr>isDuplicate = False, existingOrders = [], requiresOverride = True, riskLevel = CRITICAL\<rparr>"
proof -
  have t: "fst (checkDuplicateOrders_try no_faults 2000 [''A''] shop_A_ordered)
      = Inl RangeError"
    by (simp add: checkDuplicateOrders_try_raises)
  show ?thesis
    using t check_error_yields_fail_safe [OF disjI1 [OF t]] by simp
qed

text \<open>
  The same for the body from line 49 on with any cutoff: an error of the query, of a
  lookup or of the reading of a snapshot ends in the fail-safe result.
\<close>

lemma catch_gives_fail_safe:
  assumes "fst (check_with_cutoff fails cutoff orderIds st) = Inl e"
  shows "fst (catch_fail_safe (check_with_cutoff fails cutoff orderIds st)) =
           \<lparr>isDuplicate = False, existingOrders = [], requiresOverride = True,
            riskLevel = CRITICAL\<rparr>"
  using assms by (simp add: catch_fail_safe_fst FAIL_SAFE_def)

text \<open>
  C3. When the check requires an override and no code is supplied, processMaterialOrder
  answers success = false with requiresOverride = true and the computed check; no order, no
  audit record and no status history entry is changed, and no write is attempted.
\<close>

theorem rejection_without_code_changes_nothing:
  assumes "requiresOverride (fst (checkDuplicateOrders fails now orderIds st))"
    and "\<not> supplied overrideCode"
  shows "success (fst (processMaterialOrder fails now orderIds userId overrideCode overrideReason st))
      = False
    \<and> res_requiresOverride
        (fst (processMaterialOrder fails now orderIds userId overrideCode overrideReason st))
      = Some True
    \<and> res_duplicateCheck
        (fst (processMaterialOrder fails now orderIds userId overrideCode overrideReason st))
      = Some (fst (checkDuplicateOrders fails now orderIds st))
    \<and> orders (snd (processMaterialOrder fails now orderIds userId overrideCode overrideReason st))
      = orders st
    \<and> materialOrderHistory
        (snd (processMaterialOrder fails now orderIds userId overrideCode overrideReason st))
      = materialOrderHistory st
    \<and> statusHistory
        (snd (processMaterialOrder fails now orderIds userId overrideCode overrideReason st))
      = statusHistory st
    \<and> \<not> list_ex is_write_call
          (new_calls st
             (snd (processMaterialOrder fails now orderIds userId overrideCode overrideReason st)))"
  by (simp add: processMaterialOrder_unfold process_after_check_rejected [OF assms]
      checkDuplicateOrders_fields checkDuplicateOrders_calls new_calls_def)

theorem rejection_without_code_changes_nothing_witness:
  "requiresOverride (fst (checkDuplicateOrders no_faults 2000 [''A''] shop_A_ordered))
   \<and> \<not> supplied None
   \<and> success (fst (processMaterialOrder no_faults 2000 [''A''] ''u2'' None None shop_A_ordered))
       = False
   \<and> res_requiresOverride
        (fst (processMaterialOrder no_faults 2000 [''A''] ''u2'' None None shop_A_ordered))
       = Some True
   \<and> res_duplicateCheck
        (fst (processMaterialOrder no_faults 2000 [''A''] ''u2'' None None shop_A_ordered))
       = Some \<lparr>isDuplicate = False, existingOrders = [], requiresOverride = True,
               riskLevel = CRITICAL\<rparr>
   \<and> materialOrderHistory
        (snd (processMaterialOrder no_faults 2000 [''A''] ''u2'' None None shop_A_ordered))
       = materialOrderHistory shop_A_ordered
   \<and> orders (snd (processMaterialOrder no_faults 2000 [''A''] ''u2'' None None shop_A_ordered))
       = orders shop_A_ordered"
proof -
  have h1: "requiresOverride (fst (checkDuplicateOrders no_faults 2000 [''A''] shop_A_ordered))"
    by (simp add: eval_defs)
  have h2: "\<not> supplied None" by (simp add: supplied_def)
  show ?thesis
    using h1 h2 rejection_without_code_changes_nothing [OF h1 h2, of "''u2''" None]
    by (simp add: checkDuplicateOrders_always_fail_safe FAIL_SAFE_def)
qed

text \<open>
  C4. An order id of the batch with an audit record in the last 24 hours makes
  checkDuplicateOrders answer isDuplicate = true, CRITICAL, override required, with the
  matching records. Order A has a record from one second ago and the database answers
  every call, but the cutoff is an invalid date, the window query raises, and the answer
  is the fail-safe one: isDuplicate = false and no existing orders.
\<close>

theorem exact_duplicate_not_reported:
  "audit_record 1000 ''u1'' True ''A'' \<in> set (materialOrderHistory shop_A_ordered)
   \<and> orderId (audit_record 1000 ''u1'' True ''A'') \<in> set [''A'']
   \<and> 2000 - DUPLICATE_THRESHOLD_HOURS * 3600000 \<le> orderedAt (audit_record 1000 ''u1'' True ''A'')
   \<and> orderedAt (audit_record 1000 ''u1'' True ''A'') \<le> 2000
   \<and> cutoffTime 2000 = None
   \<and> fst (checkDuplicateOrders no_faults 2000 [''A''] shop_A_ordered) =
       \<lparr>isDuplicate = False, existingOrders = [], requiresOverride = True, riskLevel = CRITICAL\<rparr>
   \<and> new_calls shop_A_ordered (snd (checkDuplicateOrders no_faults 2000 [''A''] shop_A_ordered))
       = [DbSelectRecent None]"
  by (simp add: eval_defs)

text \<open>
  C5. Order A had its materials ordered at time T through the service; order B, another id
  with the same frame code R123 in its notes, is checked one hour later, and the answer
  should be HIGH with an override required, from the similarity of the two signatures.
  The signatures are equal (similarity 1), but the similarity is never computed: the
  window query raises and the answer is the fail-safe one, CRITICAL.
\<close>

theorem same_frame_code_is_not_high:
  "orders shop ''A'' = Some order_A \<and> orders shop ''B'' = Some order_B
   \<and> extractMaterialsFromNotes (notes_or_empty order_A)
       = [\<lparr>vendor = ''Roma Moulding'', item = ''R123''\<rparr>]
   \<and> calculateMaterialSimilarity (extractMaterialsFromNotes (notes_or_empty order_B))
        (extractMaterialsFromNotes (notes_or_empty order_A)) = 1
   \<and> materialOrderHistory
        (snd (processMaterialOrder no_faults 1000 [''A''] ''u1''
                (Some MANAGEMENT_OVERRIDE_CODE) None shop))
       = [audit_record 1000 ''u1'' True ''A'']
   \<and> fst (checkDuplicateOrders no_faults (1000 + 3600000) [''B'']
         (snd (processMaterialOrder no_faults 1000 [''A''] ''u1''
                 (Some MANAGEMENT_OVERRIDE_CODE) None shop)))
       = \<lparr>isDuplicate = False, existingOrders = [], requiresOverride = True,
          riskLevel = CRITICAL\<rparr>"
  by (simp add: eval_defs)

text \<open>
  C6. Changing an order's status twice in a row to the same target writes one status
  history entry in total. Through the status route the second call writes a second entry,
  from the target to the target; through the general route it writes none.
\<close>

theorem status_route_writes_entry_on_repeat:
  "statusHistory
     (snd (patch_order_status no_faults 2000 ''A'' ''FRAME_CUT'' (Some ''u1'')
        (snd (patch_order_status no_faults 1000 ''A'' ''FRAME_CUT'' (Some ''u1'') shop)))) =
     [\<lparr>sh_orderId = ''A'', fromStatus = Some ''ORDER_PROCESSED'', toStatus = ''FRAME_CUT'',
       changedBy = ''u1'', reason = None\<rparr>,
      \<lparr>sh_orderId = ''A'', fromStatus = Some ''FRAME_CUT'', toStatus = ''FRAME_CUT'',
       changedBy = ''u1'', reason = None\<rparr>]
   \<and> statusHistory
     (snd (patch_order no_faults 2000 ''A'' \<lparr>p_status = Some ''FRAME_CUT'', p_notes = None\<rparr>
        (Some ''u1'')
        (snd (patch_order no_faults 1000 ''A'' \<lparr>p_status = Some ''FRAME_CUT'', p_notes = None\<rparr>
                (Some ''u1'') shop)))) =
     [\<lparr>sh_orderId = ''A'', fromStatus = Some ''ORDER_PROCESSED'', toStatus = ''FRAME_CUT'',
       changedBy = ''u1'', reason = None\<rparr>]"
  by (simp add: eval_defs)




text \<open>
  C8. For a batch of N order ids that reaches the processing step, of which M succeed and
  N - M fail, success is true exactly when M > 0 and the message gives M and, when it is
  positive, N - M. An order id with no row is not counted as a failure: for the batch of
  order A and of an id that does not exist, under the management override, the answer is
  the summary for 2 orders with no failure, order A alone is changed, and an audit record
  is written for the missing id too; the batch of the missing id alone is answered
  success = true for 1 order, with no order changed.
\<close>

theorem missing_order_counted_as_success:
  "orders shop ''order2'' = None
   \<and> fst (processMaterialOrder no_faults 1000 [''A'', ''order2''] ''u1''
            (Some MANAGEMENT_OVERRIDE_CODE) (Some ''reorder'') shop) =
       \<lparr>success = True,
        message = ''Successfully ordered materials for 2 orders (Management Override Used)'',
        res_requiresOverride = None,
        res_duplicateCheck = Some \<lparr>isDuplicate = False, existingOrders = [],
           requiresOverride = True, riskLevel = CRITICAL\<rparr>\<rparr>
   \<and> orders (snd (processMaterialOrder no_faults 1000 [''A'', ''order2''] ''u1''
                    (Some MANAGEMENT_OVERRIDE_CODE) (Some ''reorder'') shop)) ''A''
       = Some (order_A\<lparr>status := ''MATERIALS_ORDERED'', updatedAt := 1000\<rparr>)
   \<and> orders (snd (processMaterialOrder no_faults 1000 [''A'', ''order2''] ''u1''
                    (Some MANAGEMENT_OVERRIDE_CODE) (Some ''reorder'') shop)) ''order2'' = None
   \<and> materialOrderHistory
        (snd (processMaterialOrder no_faults 1000 [''A'', ''order2''] ''u1''
                (Some MANAGEMENT_OVERRIDE_CODE) (Some ''reorder'') shop))
       = [audit_record 1000 ''u1'' True ''A'', audit_record 1000 ''u1'' True ''order2'']
   \<and> fst (processMaterialOrder no_faults 1000 [''order2''] ''u1''
            (Some MANAGEMENT_OVERRIDE_CODE) (Some ''reorder'') shop) =
       \<lparr>success = True,
        message = ''Successfully ordered materials for 1 orders (Management Override Used)'',
        res_requiresOverride = None,
        res_duplicateCheck = Some \<lparr>isDuplicate = False, existingOrders = [],
           requiresOverride = True, riskLevel = CRITICAL\<rparr>\<rparr>
   \<and> orders (snd (processMaterialOrder no_faults 1000 [''order2''] ''u1''
                    (Some MANAGEMENT_OVERRIDE_CODE) (Some ''reorder'') shop)) = orders shop"
proof -
  have o: "orders (snd (processMaterialOrder no_faults 1000 [''order2''] ''u1''
                    (Some MANAGEMENT_OVERRIDE_CODE) (Some ''reorder'') shop)) = orders shop"
    by (simp add: eval_defs)
  have rest: "orders shop ''order2'' = None
   \<and> fst (processMaterialOrder no_faults 1000 [''A'', ''order2''] ''u1''
            (Some MANAGEMENT_OVERRIDE_CODE) (Some ''reorder'') shop) =
       \<lparr>success = True,
        message = ''Successfully ordered materials for 2 orders (Management Override Used)'',
        res_requiresOverride = None,
        res_duplicateCheck = Some \<lparr>isDuplicate = False, existingOrders = [],
           requiresOverride = True, riskLevel = CRITICAL\<rparr>\<rparr>
   \<and> orders (snd (processMaterialOrder no_faults 1000 [''A'', ''order2''] ''u1''
                    (Some MANAGEMENT_OVERRIDE_CODE) (Some ''reorder'') shop)) ''A''
       = Some (order_A\<lparr>status := ''MATERIALS_ORDERED'', updatedAt := 1000\<rparr>)
   \<and> orders (snd (processMaterialOrder no_faults 1000 [''A'', ''order2''] ''u1''
                    (Some MANAGEMENT_OVERRIDE_CODE) (Some ''reorder'') shop)) ''order2'' = None
   \<and> materialOrderHistory
        (snd (processMaterialOrder no_faults 1000 [''A'', ''order2''] ''u1''
                (Some MANAGEMENT_OVERRIDE_CODE) (Some ''reorder'') shop))
       = [audit_record 1000 ''u1'' True ''A'', audit_record 1000 ''u1'' True ''order2'']
   \<and> fst (processMaterialOrder no_faults 1000 [''order2''] ''u1''
            (Some MANAGEMENT_OVERRIDE_CODE) (Some ''reorder'') shop) =
       \<lparr>success = True,
        message = ''Successfully ordered materials for 1 orders (Management Override Used)'',
        res_requiresOverride = None,
        res_duplicateCheck = Some \<lparr>isDuplicate = False, existingOrders = [],
           requiresOverride = True, riskLevel = CRITICAL\<rparr>\<rparr>"
    by (simp add: eval_defs)
  from rest o show ?thesis by simp
qed



text \<open>
  C10. Every result of checkDuplicateOrders, the one of the error path included, has
  requiresOverride true exactly when riskLevel is not LOW, and riskLevel CRITICAL whenever
  isDuplicate is true. This holds of the result of a call, and of the result that the
  lines after the cutoff give, caught, for any cutoff.
\<close>

theorem check_result_invariant:
  "(requiresOverride (fst (checkDuplicateOrders fails now orderIds st))
      \<longleftrightarrow> riskLevel (fst (checkDuplicateOrders fails now orderIds st)) \<noteq> LOW)
   \<and> (isDuplicate (fst (checkDuplicateOrders fails now orderIds st))
      \<longrightarrow> riskLevel (fst (checkDuplicateOrders fails now orderIds st)) = CRITICAL)
   \<and> (requiresOverride (fst (catch_fail_safe (check_with_cutoff fails cutoff orderIds st)))
      \<longleftrightarrow> riskLevel (fst (catch_fail_safe (check_with_cutoff fails cutoff orderIds st))) \<noteq> LOW)
   \<and> (isDuplicate (fst (catch_fail_safe (check_with_cutoff fails cutoff orderIds st)))
      \<longrightarrow> riskLevel (fst (catch_fail_safe (check_with_cutoff fails cutoff orderIds st)))
            = CRITICAL)"
proof -
  have call: "(requiresOverride (fst (checkDuplicateOrders fails now orderIds st))
      \<longleftrightarrow> riskLevel (fst (checkDuplicateOrders fails now orderIds st)) \<noteq> LOW)
   \<and> (isDuplicate (fst (checkDuplicateOrders fails now orderIds st))
      \<longrightarrow> riskLevel (fst (checkDuplicateOrders fails now orderIds st)) = CRITICAL)"
    using guarded_check_inv [of fails "cutoffTime now" orderIds st]
    by (simp add: checkDuplicateOrders_def checkDuplicateOrders_try_def)
  from call guarded_check_inv [of fails cutoff orderIds st] show ?thesis by blast
qed

text \<open>
  The call answers the fail-safe result, which is no duplicate; the lines after the cutoff,
  entered with the cutoff of 24 hours, find the duplicate of order A and answer CRITICAL.
\<close>

theorem check_result_invariant_witness:
  "\<not> isDuplicate (fst (checkDuplicateOrders no_faults 2000 [''A''] shop_A_ordered))
   \<and> riskLevel (fst (checkDuplicateOrders no_faults 2000 [''A''] shop_A_ordered)) = CRITICAL
   \<and> requiresOverride (fst (checkDuplicateOrders no_faults 2000 [''A''] shop_A_ordered))
   \<and> isDuplicate (fst (catch_fail_safe (check_with_cutoff no_faults
          (Some (2000 - DUPLICATE_THRESHOLD_HOURS * 3600000)) [''A''] shop_A_ordered)))
   \<and> riskLevel (fst (catch_fail_safe (check_with_cutoff no_faults
          (Some (2000 - DUPLICATE_THRESHOLD_HOURS * 3600000)) [''A''] shop_A_ordered)))
       = CRITICAL"
proof -
  have h: "isDuplicate (fst (catch_fail_safe (check_with_cutoff no_faults
          (Some (2000 - DUPLICATE_THRESHOLD_HOURS * 3600000)) [''A''] shop_A_ordered)))"
    by (simp add: declared_threshold_finds_duplicate)
  have r: "fst (checkDuplicateOrders no_faults 2000 [''A''] shop_A_ordered) = FAIL_SAFE"
    by (simp add: checkDuplicateOrders_always_fail_safe)
  show ?thesis
    using h r
      check_result_invariant [of no_faults 2000 "[''A'']" shop_A_ordered
        "Some (2000 - DUPLICATE_THRESHOLD_HOURS * 3600000)"]
    by (simp add: FAIL_SAFE_def)
qed

end
